theory Spec2Isabelle
  imports Main "HOL-Library.Word"
begin

section \<open>Block structured extents (SolverUtils/include/BSMesh.H)\<close>

text \<open>
  \<^verbatim>\<open>BSExtent<T>\<close> is a \<^verbatim>\<open>std::vector<std::vector<T>>\<close> (one row of bounds per
  dimension) with three private members: \<^verbatim>\<open>size_t _nd\<close>, \<^verbatim>\<open>std::vector<size_t> _Np\<close>
  and \<^verbatim>\<open>std::vector<size_t> _N\<close>.

  The repository instantiates the template at \<^verbatim>\<open>Mesh::IndexType\<close>
  (\<^verbatim>\<open>BSExtent<Mesh::IndexType>\<close>, the extent of \<^verbatim>\<open>GenerateCartesianGrid\<close>). Mesh.H, which
  declares \<^verbatim>\<open>IndexType\<close>, is not among the sources; \<^verbatim>\<open>T\<close> and \<^verbatim>\<open>IndexType\<close> are taken
  to be \<^verbatim>\<open>size_t\<close>, an unsigned 64-bit word: \<open>+\<close>, \<open>-\<close>, \<open>*\<close> and \<^verbatim>\<open>++\<close> wrap around at
  \<open>2\<^sup>6\<^sup>4\<close>, and the comparisons are unsigned. An \<^verbatim>\<open>int\<close> of the source (a dimension count
  or a dimension index) is an \<open>int\<close>.

  The source validates nothing and raises nothing. What can go wrong in it is an
  unchecked \<^verbatim>\<open>operator[]\<close> outside the vector (undefined behaviour), a failed
  \<^verbatim>\<open>assert\<close>, and a \<^verbatim>\<open>resize\<close> to a size no vector can have; each is a value of
  \<open>fault\<close>, and every operation returns \<open>fault + result\<close>. An operation with a loop that
  need not end (\<^verbatim>\<open>dir_loop\<close> and its callers, \<^verbatim>\<open>NodeNum\<close>) returns an option of that,
  \<open>None\<close> being the run that never ends.
\<close>

type_synonym size_t = "64 word"
type_synonym T = size_t
type_synonym IndexType = size_t

datatype fault = OutOfRange | AssertFailed | LengthError

record BSExtent =
  bounds :: "T list list"
  m_nd :: nat
  m_Np :: "size_t list"
  m_N :: "size_t list"

text \<open>Sequencing of steps that may fault: the first fault ends the run.\<close>

definition bindF :: "fault + 'a \<Rightarrow> ('a \<Rightarrow> fault + 'b) \<Rightarrow> fault + 'b" where
  "bindF m f = (case m of Inl e \<Rightarrow> Inl e | Inr x \<Rightarrow> f x)"

text \<open>\<^verbatim>\<open>v[i]\<close> with a \<^verbatim>\<open>size_t\<close> index, and with an \<^verbatim>\<open>int\<close> index (a negative \<^verbatim>\<open>int\<close>
  converts to a \<^verbatim>\<open>size_t\<close> beyond every vector).\<close>

definition at :: "'a list \<Rightarrow> nat \<Rightarrow> fault + 'a" where
  "at xs i = (if i < length xs then Inr (xs ! i) else Inl OutOfRange)"

definition at_int :: "'a list \<Rightarrow> int \<Rightarrow> fault + 'a" where
  "at_int xs i = (if 0 \<le> i \<and> nat i < length xs then Inr (xs ! nat i) else Inl OutOfRange)"

text \<open>The default constructor, and \<^verbatim>\<open>destroy\<close>, which resets to the same state.\<close>

definition BSExtent_default :: BSExtent where
  "BSExtent_default = \<lparr>bounds = [], m_nd = 0, m_Np = [], m_N = []\<rparr>"

definition destroy :: "BSExtent \<Rightarrow> BSExtent" where
  "destroy e = e\<lparr>bounds := [], m_nd := 0, m_Np := [], m_N := []\<rparr>"

subsection \<open>Sync\<close>

text \<open>First loop of \<^verbatim>\<open>Sync\<close>: \<^verbatim>\<open>_N[i] = (*this)[i][1] - (*this)[i][0] + 1\<close> for every row;
  the difference wraps around when \<open>lo > hi + 1\<close>.\<close>

fun Sync_N :: "T list list \<Rightarrow> fault + size_t list" where
  "Sync_N [] = Inr []"
| "Sync_N (r # rs) =
     bindF (at r 1) (\<lambda>hi. bindF (at r 0) (\<lambda>lo.
       bindF (Sync_N rs) (\<lambda>ns. Inr ((hi - lo + 1) # ns))))"

text \<open>Second loop: \<^verbatim>\<open>_Np[i] = _N[i - 1] * _Np[i - 1]\<close> for \<open>i \<ge> 1\<close>. The first argument is
  the entry being written (\<^verbatim>\<open>_Np[0] = 1\<close> at the start), the list the sizes from \<open>i\<close> on.\<close>

fun Sync_Np :: "size_t \<Rightarrow> size_t list \<Rightarrow> size_t list" where
  "Sync_Np p [] = []"
| "Sync_Np p (n # ns) = p # Sync_Np (n * p) ns"

text \<open>\<^verbatim>\<open>_Np[0] = 1\<close> is written whatever the size, also into a vector of size 0.\<close>

definition Sync :: "BSExtent \<Rightarrow> fault + BSExtent" where
  "Sync e =
     (let n = length (bounds e) in
      bindF (Sync_N (bounds e)) (\<lambda>Ns.
        if n = 0 then Inl OutOfRange
        else Inr (e\<lparr>m_nd := n, m_Np := Sync_Np 1 Ns, m_N := Ns\<rparr>)))"

subsection \<open>Constructors\<close>

text \<open>\<^verbatim>\<open>BSExtent(const std::vector<std::vector<T>> &inextent)\<close>: every row is copied as it
  is, whatever its length.\<close>

definition BSExtent_nested :: "T list list \<Rightarrow> fault + BSExtent" where
  "BSExtent_nested inextent =
     Sync \<lparr>bounds = inextent, m_nd = length inextent, m_Np = [], m_N = []\<rparr>"

text \<open>The row-filling loop of the flat and the raw constructor and of \<^verbatim>\<open>Init\<close>: each row
  takes the next two entries of the source, \<^verbatim>\<open>src[nindex++]\<close> twice.\<close>

fun fill_rows :: "T list \<Rightarrow> nat \<Rightarrow> nat \<Rightarrow> fault + T list list" where
  "fill_rows src nindex 0 = Inr []"
| "fill_rows src nindex (Suc n) =
     bindF (at src nindex) (\<lambda>a. bindF (at src (nindex + 1)) (\<lambda>b.
       bindF (fill_rows src (nindex + 2) n) (\<lambda>rs. Inr ([a, b] # rs))))"

text \<open>\<^verbatim>\<open>BSExtent(const std::vector<T> &inflatextent)\<close>: \<^verbatim>\<open>_nd = inflatextent.size() / 2\<close>.\<close>

definition BSExtent_flat :: "T list \<Rightarrow> fault + BSExtent" where
  "BSExtent_flat inflatextent =
     (let n = length inflatextent div 2 in
      bindF (fill_rows inflatextent 0 n) (\<lambda>rs.
        Sync \<lparr>bounds = rs, m_nd = n, m_Np = [], m_N = []\<rparr>))"

text \<open>\<^verbatim>\<open>BSExtent(const T *src, int nd = 3)\<close>: the buffer is the list \<open>src\<close>; a read past its
  end is out of range. \<^verbatim>\<open>_nd = nd\<close> converts the \<^verbatim>\<open>int\<close> to \<^verbatim>\<open>size_t\<close>, and
  \<^verbatim>\<open>resize\<close> throws \<^verbatim>\<open>std::length_error\<close> on the size a negative \<^verbatim>\<open>nd\<close> becomes.\<close>

definition BSExtent_raw :: "T list \<Rightarrow> int \<Rightarrow> fault + BSExtent" where
  "BSExtent_raw src nd =
     (if nd < 0 then Inl LengthError
      else bindF (fill_rows src 0 (nat nd)) (\<lambda>rs.
        Sync \<lparr>bounds = rs, m_nd = nat nd, m_Np = [], m_N = []\<rparr>))"

definition Init :: "BSExtent \<Rightarrow> T list \<Rightarrow> fault + BSExtent" where
  "Init e inflatextent =
     (let n = length inflatextent div 2 in
      bindF (fill_rows inflatextent 0 n) (\<lambda>rs.
        Sync ((destroy e)\<lparr>bounds := rs, m_nd := n\<rparr>)))"

definition ND :: "BSExtent \<Rightarrow> int" where
  "ND e = int (length (bounds e))"

subsection \<open>Overlap\<close>

text \<open>One half of the test of \<^verbatim>\<open>Overlap\<close>, for the bound \<open>k\<close> of this extent's row \<open>a\<close>
  against the row \<open>b\<close> of the other:
  \<^verbatim>\<open>(*this)[j][k] >= inextent[j][0] && (*this)[j][k] <= inextent[j][1]\<close>, where \<^verbatim>\<open>&&\<close>
  reads its right operand only when the left one holds.\<close>

definition bound_within :: "T list \<Rightarrow> T list \<Rightarrow> nat \<Rightarrow> fault + bool" where
  "bound_within a b k =
     bindF (at a k) (\<lambda>x. bindF (at b 0) (\<lambda>lo.
       if x \<ge> lo then bindF (at b 1) (\<lambda>hi. Inr (x \<le> hi)) else Inr False))"

text \<open>The whole test of one dimension: the lower bound of this extent lies in the other's
  range, or else its upper bound does.\<close>

definition dim_match :: "T list \<Rightarrow> T list \<Rightarrow> fault + bool" where
  "dim_match a b =
     bindF (bound_within a b 0) (\<lambda>m. if m then Inr True else bound_within a b 1)"

text \<open>\<^verbatim>\<open>for (size_t j = 0; j < nd && match; j++)\<close>: the rows of this extent in turn, the
  row \<open>j\<close> of the other read by index; the loop stops at the first dimension that fails.\<close>

fun Overlap_match :: "T list list \<Rightarrow> T list list \<Rightarrow> nat \<Rightarrow> fault + bool" where
  "Overlap_match [] inextent j = Inr True"
| "Overlap_match (a # as) inextent j =
     bindF (at inextent j) (\<lambda>b. bindF (dim_match a b) (\<lambda>m.
       if m then Overlap_match as inextent (Suc j) else Inr False))"

text \<open>The loop that fills the result: \<^verbatim>\<open>std::max\<close> of the lower bounds and
  \<^verbatim>\<open>std::min\<close> of the upper bounds, per dimension.\<close>

fun Overlap_fill :: "T list list \<Rightarrow> T list list \<Rightarrow> nat \<Rightarrow> fault + T list list" where
  "Overlap_fill [] inextent i = Inr []"
| "Overlap_fill (a # as) inextent i =
     bindF (at inextent i) (\<lambda>b.
     bindF (at a 0) (\<lambda>a0. bindF (at b 0) (\<lambda>b0.
     bindF (at a 1) (\<lambda>a1. bindF (at b 1) (\<lambda>b1.
     bindF (Overlap_fill as inextent (Suc i)) (\<lambda>rs.
       Inr ([max a0 b0, min a1 b1] # rs)))))))"

text \<open>\<^verbatim>\<open>Overlap(inextent, outextent)\<close>. The output parameter is a \<^verbatim>\<open>BSExtent\<close> of which
  only the rows are written (\<^verbatim>\<open>resize\<close> and \<^verbatim>\<open>operator[]\<close> of the base vector); its
  members \<^verbatim>\<open>_nd\<close>, \<^verbatim>\<open>_Np\<close> and \<^verbatim>\<open>_N\<close> stay as the caller passed them. No region is an
  output with no rows. The output is an object of its own, neither this extent nor
  \<^verbatim>\<open>inextent\<close> (as in \<^verbatim>\<open>FindSharedNodes\<close>, the one caller).\<close>

definition Overlap :: "BSExtent \<Rightarrow> BSExtent \<Rightarrow> BSExtent \<Rightarrow> fault + BSExtent" where
  "Overlap self inextent outextent =
     bindF (Overlap_match (bounds self) (bounds inextent) 0) (\<lambda>match.
       if match
       then bindF (Overlap_fill (bounds self) (bounds inextent) 0) (\<lambda>rs.
              Inr (outextent\<lparr>bounds := rs\<rparr>))
       else Inr (outextent\<lparr>bounds := []\<rparr>))"

subsection \<open>FindSharedNodes\<close>

text \<open>The loop over the pool. \<^verbatim>\<open>*epi != *this\<close> is the comparison of the base vectors
  (\<^verbatim>\<open>BSExtent\<close> declares no comparison of its own), so it compares the rows and nothing
  else. \<^verbatim>\<open>overlap\<close> is default-constructed in every iteration; \<^verbatim>\<open>nindex\<close> counts every
  pool entry, skipped or not.\<close>

fun FindSharedNodes_loop ::
  "BSExtent \<Rightarrow> BSExtent list \<Rightarrow> T \<Rightarrow> BSExtent list \<Rightarrow> T list \<Rightarrow> fault + (BSExtent list \<times> T list)"
where
  "FindSharedNodes_loop self [] nindex shared_extents neighbors =
     Inr (shared_extents, neighbors)"
| "FindSharedNodes_loop self (epi # pool) nindex shared_extents neighbors =
     (if bounds epi \<noteq> bounds self
      then bindF (Overlap self epi BSExtent_default) (\<lambda>overlap.
             if bounds overlap \<noteq> []
             then FindSharedNodes_loop self pool (nindex + 1)
                    (shared_extents @ [overlap]) (neighbors @ [nindex])
             else FindSharedNodes_loop self pool (nindex + 1) shared_extents neighbors)
      else FindSharedNodes_loop self pool (nindex + 1) shared_extents neighbors)"

text \<open>\<^verbatim>\<open>FindSharedNodes(extent_pool, shared_extents, neighbors)\<close>: the two output vectors
  are parameters, with the contents the caller passes; only \<^verbatim>\<open>shared_extents\<close> is
  resized to 0.\<close>

definition FindSharedNodes ::
  "BSExtent \<Rightarrow> BSExtent list \<Rightarrow> BSExtent list \<Rightarrow> T list \<Rightarrow> fault + (BSExtent list \<times> T list)"
where
  "FindSharedNodes self extent_pool shared_extents neighbors =
     FindSharedNodes_loop self extent_pool 0 [] neighbors"

subsection \<open>GetFlatIndices and dir_loop\<close>

text \<open>\<^verbatim>\<open>dir_loop\<close> and the \<^verbatim>\<open>for (T dd = start; dd <= end; dd++)\<close> loop in it, which calls
  \<^verbatim>\<open>dir_loop\<close> again for the next lower dimension. The loop need not end: \<^verbatim>\<open>dd <= end\<close>
  holds for every \<^verbatim>\<open>dd\<close> when \<^verbatim>\<open>end\<close> is the largest value of \<^verbatim>\<open>T\<close>. So the two are one
  partial function of the call that is running, \<^verbatim>\<open>dir_loop\<close> at its entry
  (\<open>Dir_loop nd indoff plane indices\<close>) or the \<^verbatim>\<open>for\<close> loop at its test
  (\<open>Dir_loop_for dindex dd end indoff plane indices\<close>); \<open>None\<close> is the run that never
  ends. \<^verbatim>\<open>N\<close>, \<^verbatim>\<open>NP\<close>, \<^verbatim>\<open>inextent\<close> and this extent do not change during the run;
  \<^verbatim>\<open>N\<close> and \<^verbatim>\<open>plane\<close> are passed along as in the source, which never reads them for the
  result.\<close>

datatype dir_call =
  Dir_loop int T T "T list"
| Dir_loop_for int T T T T "T list"

partial_function (option) dir_loop_run ::
  "BSExtent \<Rightarrow> T list \<Rightarrow> T list \<Rightarrow> BSExtent \<Rightarrow> dir_call \<Rightarrow> (fault + T list) option"
where
  "dir_loop_run self N NP inextent call =
     (case call of
        Dir_loop nd indoff plane indices \<Rightarrow>
          (let dindex = nd - 1 in
           if 0 \<le> dindex \<and> nat dindex < length NP
           then (case at_int (bounds inextent) dindex of
                   Inl f \<Rightarrow> Some (Inl f)
                 | Inr row \<Rightarrow>
                    (case at row 0 of
                       Inl f \<Rightarrow> Some (Inl f)
                     | Inr start \<Rightarrow>
                        (case at row 1 of
                           Inl f \<Rightarrow> Some (Inl f)
                         | Inr endv \<Rightarrow>
                            dir_loop_run self N NP inextent
                              (Dir_loop_for dindex start endv indoff
                                 (plane + NP ! nat dindex) indices))))
           else Some (Inl OutOfRange))
      | Dir_loop_for dindex dd endv indoff plane indices \<Rightarrow>
          (if dd \<le> endv
           then (case at_int (bounds self) dindex of
                   Inl f \<Rightarrow> Some (Inl f)
                 | Inr row \<Rightarrow>
                    (case at row 0 of
                       Inl f \<Rightarrow> Some (Inl f)
                     | Inr lo \<Rightarrow>
                        if dindex = 0
                        then dir_loop_run self N NP inextent
                               (Dir_loop_for dindex (dd + 1) endv indoff plane
                                  (indices @ [dd - lo + 1 + indoff]))
                        else if 0 \<le> dindex \<and> nat dindex < length NP
                        then Option.bind
                               (dir_loop_run self N NP inextent
                                  (Dir_loop dindex (indoff + (dd - lo) * NP ! nat dindex)
                                     plane indices))
                               (\<lambda>r. case r of
                                      Inl f \<Rightarrow> Some (Inl f)
                                    | Inr indices' \<Rightarrow>
                                       dir_loop_run self N NP inextent
                                         (Dir_loop_for dindex (dd + 1) endv indoff plane
                                            indices'))
                        else Some (Inl OutOfRange)))
           else Some (Inr indices)))"

declare dir_loop_run.simps [code]

text \<open>\<^verbatim>\<open>dir_loop(nd, indoff, plane, N, NP, inextent, indices)\<close> on this extent, and its
  \<^verbatim>\<open>for\<close> loop from the counter \<open>dd\<close> on.\<close>

definition dir_loop ::
  "BSExtent \<Rightarrow> int \<Rightarrow> T \<Rightarrow> T \<Rightarrow> T list \<Rightarrow> T list \<Rightarrow> BSExtent \<Rightarrow> T list \<Rightarrow> (fault + T list) option"
where
  "dir_loop self nd indoff plane N NP inextent indices =
     dir_loop_run self N NP inextent (Dir_loop nd indoff plane indices)"

definition dir_loop_for ::
  "BSExtent \<Rightarrow> int \<Rightarrow> T \<Rightarrow> T \<Rightarrow> T \<Rightarrow> T \<Rightarrow> T list \<Rightarrow> T list \<Rightarrow> BSExtent \<Rightarrow> T list
     \<Rightarrow> (fault + T list) option"
where
  "dir_loop_for self dindex dd endv indoff plane N NP inextent indices =
     dir_loop_run self N NP inextent (Dir_loop_for dindex dd endv indoff plane indices)"

text \<open>The loop of \<^verbatim>\<open>GetFlatIndices\<close> over the dimensions of this extent:
  \<^verbatim>\<open>N[nc] = (*this)[nc][1] - (*this)[nc][0] + 1\<close> and
  \<^verbatim>\<open>NP[nc] = (nc == 0 ? 1 : N[nc - 1] * NP[nc - 1])\<close>, in \<^verbatim>\<open>T\<close>. The second argument is the
  value \<^verbatim>\<open>NP[nc]\<close> takes.\<close>

fun GetFlatIndices_loop :: "T list list \<Rightarrow> T \<Rightarrow> fault + (T list \<times> T list)" where
  "GetFlatIndices_loop [] p = Inr ([], [])"
| "GetFlatIndices_loop (r # rs) p =
     bindF (at r 1) (\<lambda>hi. bindF (at r 0) (\<lambda>lo.
       bindF (GetFlatIndices_loop rs ((hi - lo + 1) * p)) (\<lambda>(N, NP).
         Inr ((hi - lo + 1) # N, p # NP))))"

text \<open>\<^verbatim>\<open>v[i] = x\<close>.\<close>

definition put :: "'a list \<Rightarrow> nat \<Rightarrow> 'a \<Rightarrow> fault + 'a list" where
  "put xs i x = (if i < length xs then Inr (xs[i := x]) else Inl OutOfRange)"

text \<open>\<^verbatim>\<open>GetFlatIndices(extent, indices)\<close>: \<^verbatim>\<open>indices\<close> is resized to 0 first, so the result
  does not depend on what it held. \<^verbatim>\<open>NP[0] = 0\<close> is written whatever \<^verbatim>\<open>nd\<close> is. \<open>None\<close> is
  the call that never returns.\<close>

definition GetFlatIndices :: "BSExtent \<Rightarrow> BSExtent \<Rightarrow> (fault + T list) option" where
  "GetFlatIndices self extent =
     (let nd = ND self in
      case GetFlatIndices_loop (bounds self) 1 of
        Inl f \<Rightarrow> Some (Inl f)
      | Inr (N, NP) \<Rightarrow>
         (case put NP 0 0 of
            Inl f \<Rightarrow> Some (Inl f)
          | Inr NP' \<Rightarrow> dir_loop self nd 0 0 N NP' extent []))"

subsection \<open>NodeNum\<close>







subsection \<open>CreateUnstructuredMesh\<close>

text \<open>Modelled from the spec: the connectivity collaborator (\<^verbatim>\<open>Connectivity\<close> of Mesh.H,
  which is not among the sources). \<^verbatim>\<open>AddElement\<close> appends one ordered tuple of node
  indices; \<^verbatim>\<open>Sync\<close> finalizes after a batch of additions, and is counted here.\<close>

record Connectivity =
  elements :: "IndexType list list"
  syncs :: nat

definition AddElement :: "Connectivity \<Rightarrow> IndexType list \<Rightarrow> Connectivity" where
  "AddElement conn element = conn\<lparr>elements := elements conn @ [element]\<rparr>"

definition Connectivity_Sync :: "Connectivity \<Rightarrow> Connectivity" where
  "Connectivity_Sync conn = conn\<lparr>syncs := Suc (syncs conn)\<rparr>"

text \<open>One round of \<^verbatim>\<open>for (int i = 0; i < 3; i++)\<close>:
  \<^verbatim>\<open>if (_N[i] > 1) lowerleft[i][1]--; else mesh_nd--;\<close>\<close>

definition lowerleft_step ::
  "size_t list \<Rightarrow> nat \<Rightarrow> T list list \<times> int \<Rightarrow> fault + (T list list \<times> int)"
where
  "lowerleft_step Ns i st =
     (case st of (lowerleft, mesh_nd) \<Rightarrow>
        bindF (at Ns i) (\<lambda>n.
          if n > 1
          then bindF (at lowerleft i) (\<lambda>row. bindF (at row 1) (\<lambda>hi.
                 Inr (lowerleft[i := row[1 := hi - 1]], mesh_nd)))
          else Inr (lowerleft, mesh_nd - 1)))"

text \<open>The element of the lower left node \<open>i\<close>: four nodes, and four more when
  \<^verbatim>\<open>planeoffset > 0\<close>.\<close>

definition make_element :: "IndexType \<Rightarrow> IndexType \<Rightarrow> IndexType \<Rightarrow> IndexType list" where
  "make_element i offset planeoffset =
     [i, i + 1, i + 1 + offset, i + offset] @
     (if planeoffset > 0
      then [i + planeoffset, i + 1 + planeoffset, i + planeoffset + offset + 1,
            i + planeoffset + offset]
      else [])"

fun add_elements :: "IndexType list \<Rightarrow> IndexType \<Rightarrow> IndexType \<Rightarrow> Connectivity \<Rightarrow> Connectivity" where
  "add_elements [] offset planeoffset conn = conn"
| "add_elements (i # indices) offset planeoffset conn =
     add_elements indices offset planeoffset
       (AddElement conn (make_element i offset planeoffset))"

text \<open>The loop \<^verbatim>\<open>for (int i = 0; i < 3; i++)\<close> of \<^verbatim>\<open>CreateUnstructuredMesh\<close> on the copy
  \<^verbatim>\<open>lowerleft\<close> of this extent, with \<^verbatim>\<open>mesh_nd = 3\<close> at the start.\<close>

definition lowerleft_loop :: "BSExtent \<Rightarrow> fault + (T list list \<times> int)" where
  "lowerleft_loop self =
     bindF (lowerleft_step (m_N self) 0 (bounds self, 3)) (\<lambda>st0.
     bindF (lowerleft_step (m_N self) 1 st0) (\<lambda>st1.
       lowerleft_step (m_N self) 2 st1))"

text \<open>\<^verbatim>\<open>offset\<close> and \<^verbatim>\<open>planeoffset\<close>, then the loop that adds the elements, then
  \<^verbatim>\<open>conn.Sync()\<close>.\<close>

definition emit_elements ::
  "BSExtent \<Rightarrow> int \<Rightarrow> IndexType list \<Rightarrow> Connectivity \<Rightarrow> fault + Connectivity"
where
  "emit_elements self mesh_nd indices conn =
     bindF (at (m_N self) 0) (\<lambda>n0.
     bindF (if n0 > 1 then Inr n0 else at (m_N self) 1) (\<lambda>offset.
     bindF (if mesh_nd = 2 then Inr 0
            else bindF (at (m_N self) 1) (\<lambda>n1. Inr (offset * n1)))
       (\<lambda>planeoffset.
         Inr (Connectivity_Sync (add_elements indices offset planeoffset conn)))))"

text \<open>\<^verbatim>\<open>CreateUnstructuredMesh(conn)\<close>; the two \<^verbatim>\<open>assert\<close>s are checked. \<open>None\<close> is the call
  that never returns, when \<^verbatim>\<open>GetFlatIndices\<close> does not.\<close>

definition CreateUnstructuredMesh ::
  "BSExtent \<Rightarrow> Connectivity \<Rightarrow> (fault + Connectivity) option"
where
  "CreateUnstructuredMesh self conn =
     (if m_nd self \<noteq> 3 then Some (Inl AssertFailed)
      else
        (case lowerleft_loop self of
           Inl f \<Rightarrow> Some (Inl f)
         | Inr (lowerleft, mesh_nd) \<Rightarrow>
            if \<not> mesh_nd > 1 then Some (Inl AssertFailed)
            else
              Option.bind (GetFlatIndices self (self\<lparr>bounds := lowerleft\<rparr>))
                (\<lambda>r. case r of
                       Inl f \<Rightarrow> Some (Inl f)
                     | Inr indices \<Rightarrow> Some (emit_elements self mesh_nd indices conn))))"

subsection \<open>Predicates of the specification\<close>

text \<open>The closed ranges of two extents meet in every dimension:
  \<open>A.lo\<^sub>d \<le> B.hi\<^sub>d\<close> and \<open>B.lo\<^sub>d \<le> A.hi\<^sub>d\<close> for all \<open>d\<close>.\<close>

definition closed_ranges_meet :: "T list list \<Rightarrow> T list list \<Rightarrow> bool" where
  "closed_ranges_meet A B = list_all2 (\<lambda>a b. a ! 0 \<le> b ! 1 \<and> b ! 0 \<le> a ! 1) A B"

text \<open>The derived members of an extent agree with its rows when \<^verbatim>\<open>Sync\<close> would leave
  the extent as it is.\<close>

definition derived_in_sync :: "BSExtent \<Rightarrow> bool" where
  "derived_in_sync e = (Sync e = Inr e)"

text \<open>What \<^verbatim>\<open>FindSharedNodes\<close> reports of a pool entry: the overlap of this extent with
  it, when the rows of the two differ and \<^verbatim>\<open>Overlap\<close> leaves an output with rows.\<close>

definition reported :: "BSExtent \<Rightarrow> BSExtent \<Rightarrow> BSExtent option" where
  "reported self epi =
     (if bounds epi \<noteq> bounds self
      then (case Overlap self epi BSExtent_default of
              Inl f \<Rightarrow> None
            | Inr overlap \<Rightarrow> if bounds overlap \<noteq> [] then Some overlap else None)
      else None)"


text \<open>Every row holds a lower and an upper bound.\<close>

definition rows_paired :: "T list list \<Rightarrow> bool" where
  "rows_paired rows = list_all (\<lambda>r. 2 \<le> length r) rows"



section \<open>Properties\<close>

lemma bindF_simps:
  "bindF (Inl e) f = Inl e"
  "bindF (Inr x) f = f x"
  by (simp_all add: bindF_def)

subsection \<open>dir_loop and its loop, as the source writes them\<close>

lemma dir_loop_unfold:
  "dir_loop self nd indoff plane N NP inextent indices =
     (let dindex = nd - 1 in
      if 0 \<le> dindex \<and> nat dindex < length NP
      then (case at_int (bounds inextent) dindex of
              Inl f \<Rightarrow> Some (Inl f)
            | Inr row \<Rightarrow>
               (case at row 0 of
                  Inl f \<Rightarrow> Some (Inl f)
                | Inr start \<Rightarrow>
                   (case at row 1 of
                      Inl f \<Rightarrow> Some (Inl f)
                    | Inr endv \<Rightarrow>
                       dir_loop_for self dindex start endv indoff
                         (plane + NP ! nat dindex) N NP inextent indices)))
      else Some (Inl OutOfRange))"
  unfolding dir_loop_def dir_loop_for_def
  by (subst dir_loop_run.simps) simp

lemma dir_loop_for_unfold:
  "dir_loop_for self dindex dd endv indoff plane N NP inextent indices =
     (if dd \<le> endv
      then (case at_int (bounds self) dindex of
              Inl f \<Rightarrow> Some (Inl f)
            | Inr row \<Rightarrow>
               (case at row 0 of
                  Inl f \<Rightarrow> Some (Inl f)
                | Inr lo \<Rightarrow>
                   if dindex = 0
                   then dir_loop_for self dindex (dd + 1) endv indoff plane N NP inextent
                          (indices @ [dd - lo + 1 + indoff])
                   else if 0 \<le> dindex \<and> nat dindex < length NP
                   then Option.bind
                          (dir_loop self dindex (indoff + (dd - lo) * NP ! nat dindex)
                             plane N NP inextent indices)
                          (\<lambda>r. case r of
                                 Inl f \<Rightarrow> Some (Inl f)
                               | Inr indices' \<Rightarrow>
                                  dir_loop_for self dindex (dd + 1) endv indoff plane N NP
                                    inextent indices')
                   else Some (Inl OutOfRange)))
      else Some (Inr indices))"
  unfolding dir_loop_def dir_loop_for_def
  by (subst dir_loop_run.simps) simp

subsection \<open>Reads in range\<close>

lemma at_in_range: "i < length xs \<Longrightarrow> at xs i = Inr (xs ! i)"
  by (simp add: at_def)

lemma Sync_N_paired:
  "rows_paired rows \<Longrightarrow>
     Sync_N rows = Inr (map (\<lambda>r. (r ! 1 - r ! 0 + 1)) rows)"
  by (induction rows) (auto simp: rows_paired_def bindF_def at_def)

lemma Sync_paired:
  "rows_paired (bounds e) \<Longrightarrow> bounds e \<noteq> [] \<Longrightarrow>
     Sync e = Inr (e\<lparr>m_nd := length (bounds e),
                     m_Np := Sync_Np 1 (map (\<lambda>r. (r ! 1 - r ! 0 + 1)) (bounds e)),
                     m_N := map (\<lambda>r. (r ! 1 - r ! 0 + 1)) (bounds e)\<rparr>)"
  by (simp add: Sync_def Sync_N_paired bindF_def)

lemma Sync_bounds: "Sync e = Inr e' \<Longrightarrow> bounds e' = bounds e"
  by (auto simp: Sync_def bindF_def Let_def split: sum.splits if_splits)

lemma Sync_in_sync: "Sync e = Inr e' \<Longrightarrow> derived_in_sync e'"
  by (auto simp: Sync_def derived_in_sync_def bindF_def Let_def split: sum.splits if_splits)

lemma Sync_succeeds:
  assumes "rows_paired (bounds e)" and "bounds e \<noteq> []"
  shows "\<exists>e'. Sync e = Inr e' \<and> bounds e' = bounds e \<and> derived_in_sync e'"
proof -
  from Sync_paired [OF assms] obtain e' where s: "Sync e = Inr e'" by blast
  with Sync_bounds [OF s] Sync_in_sync [OF s] show ?thesis by blast
qed

lemma fill_rows_in_range:
  "nindex + 2 * n \<le> length src \<Longrightarrow>
     fill_rows src nindex n
       = Inr (map (\<lambda>d. [src ! (nindex + 2 * d), src ! (nindex + 2 * d + 1)]) [0..<n])"
proof (induction n arbitrary: nindex)
  case 0
  then show ?case by simp
next
  case (Suc n)
  from Suc.prems have "nindex + 2 + 2 * n \<le> length src" by simp
  from Suc.IH [OF this]
  have "fill_rows src (nindex + 2) n
          = Inr (map (\<lambda>d. [src ! (nindex + 2 * Suc d), src ! (nindex + 2 * Suc d + 1)]) [0..<n])"
    by (simp add: add.assoc)
  moreover have "[0..<Suc n] = 0 # map Suc [0..<n]"
    by (simp add: upt_conv_Cons map_Suc_upt del: upt_Suc)
  ultimately show ?case
    using Suc.prems by (simp add: bindF_def at_def comp_def del: upt_Suc)
qed

lemma rows_paired_pairs: "rows_paired (map (\<lambda>d. [f d, g d]) ds)"
  by (simp add: rows_paired_def list_all_iff)


subsection \<open>What Sync computes\<close>

text \<open>An extent that \<^verbatim>\<open>Sync\<close> leaves as it is has the sizes and strides of the
  specification: \<open>size\<^sub>d = hi\<^sub>d - lo\<^sub>d + 1\<close>, \<open>stride\<^sub>0 = 1\<close> and
  \<open>stride\<^sub>d = size\<^sub>d\<^sub>-\<^sub>1 * stride\<^sub>d\<^sub>-\<^sub>1\<close>, in \<^verbatim>\<open>size_t\<close> (modulo \<open>2\<^sup>6\<^sup>4\<close>).\<close>

lemma Sync_Np_nth: "ns \<noteq> [] \<Longrightarrow> Sync_Np p ns ! 0 = p"
  by (cases ns) simp_all

lemma Sync_Np_length: "length (Sync_Np p ns) = length ns"
  by (induction ns arbitrary: p) simp_all

lemma Sync_Np_step:
  "Suc d < length ns \<Longrightarrow> Sync_Np p ns ! Suc d = ns ! d * Sync_Np p ns ! d"
proof (induction ns arbitrary: p d)
  case Nil
  then show ?case by simp
next
  case (Cons n ns)
  show ?case
  proof (cases d)
    case 0
    with Cons.prems show ?thesis by (cases ns) simp_all
  next
    case (Suc d')
    with Cons.prems have "Suc d' < length ns" by simp
    from Cons.IH [OF this] Suc show ?thesis by simp
  qed
qed

lemma Sync_N_nth:
  "Sync_N rows = Inr Ns \<Longrightarrow>
     length Ns = length rows \<and>
     (\<forall>d < length rows. Ns ! d = rows ! d ! 1 - rows ! d ! 0 + 1)"
proof (induction rows arbitrary: Ns)
  case Nil
  then show ?case by simp
next
  case (Cons r rows)
  from Cons.prems obtain ns where ns: "Sync_N rows = Inr ns"
    and Ns: "Ns = (r ! 1 - r ! 0 + 1) # ns"
    by (auto simp: bindF_def at_def split: sum.splits if_splits)
  from Cons.IH [OF ns] Ns show ?case
    by (auto simp: nth_Cons split: nat.splits)
qed

lemma derived_in_sync_formulas:
  assumes "derived_in_sync e"
  shows "m_nd e = length (bounds e)"
    and "length (m_N e) = length (bounds e)"
    and "length (m_Np e) = length (bounds e)"
    and "d < length (bounds e) \<Longrightarrow>
           m_N e ! d = bounds e ! d ! 1 - bounds e ! d ! 0 + 1"
    and "m_Np e ! 0 = 1"
    and "Suc d < length (bounds e) \<Longrightarrow> m_Np e ! Suc d = m_N e ! d * m_Np e ! d"
proof -
  from assms obtain Ns where Ns: "Sync_N (bounds e) = Inr Ns"
    and ne: "bounds e \<noteq> []"
    and e: "e = e\<lparr>m_nd := length (bounds e), m_Np := Sync_Np 1 Ns, m_N := Ns\<rparr>"
    by (auto simp: derived_in_sync_def Sync_def bindF_def Let_def split: sum.splits if_splits)
  from e have nd: "m_nd e = length (bounds e)" and Np: "m_Np e = Sync_Np 1 Ns"
    and N: "m_N e = Ns"
    by (metis BSExtent.select_convs BSExtent.surjective BSExtent.update_convs)+
  note n = Sync_N_nth [OF Ns]
  show "m_nd e = length (bounds e)" by (rule nd)
  show "length (m_N e) = length (bounds e)" using n N by simp
  show "length (m_Np e) = length (bounds e)" using n Np by (simp add: Sync_Np_length)
  show "d < length (bounds e) \<Longrightarrow>
           m_N e ! d = bounds e ! d ! 1 - bounds e ! d ! 0 + 1"
    using n N by simp
  from n ne have "Ns \<noteq> []" by auto
  then show "m_Np e ! 0 = 1" using Np by (simp add: Sync_Np_nth)
  show "Suc d < length (bounds e) \<Longrightarrow> m_Np e ! Suc d = m_N e ! d * m_Np e ! d"
    using n Np N by (simp add: Sync_Np_step)
qed

subsection \<open>Overlap and GetFlatIndices read the first dimensions of the other extent\<close>






lemma dim_match_paired:
  "2 \<le> length a \<Longrightarrow> 2 \<le> length b \<Longrightarrow>
     dim_match a b = Inr ((b ! 0 \<le> a ! 0 \<and> a ! 0 \<le> b ! 1) \<or> (b ! 0 \<le> a ! 1 \<and> a ! 1 \<le> b ! 1))"
  by (auto simp: dim_match_def bound_within_def bindF_def at_def)











subsection \<open>When GetFlatIndices returns\<close>









text \<open>The loop over a row whose upper bound is the largest value of \<^verbatim>\<open>T\<close> never ends: in
  the extent \<open>[[0,1],[0,1]]\<close>, \<^verbatim>\<open>GetFlatIndices\<close> of \<open>[[1,0],[0,2\<^sup>6\<^sup>4-1]]\<close> does not return.\<close>

lemma max_word_64: "(- 1 :: 64 word) = 18446744073709551615"
  by simp

lemma no_return_example:
  "dir_loop_run self N NP inextent call = Some y \<Longrightarrow>
   bounds self = [[0, 1], [0, 1]] \<Longrightarrow> length NP = 2 \<Longrightarrow>
   bounds inextent = [[1, 0], [0, 18446744073709551615]] \<Longrightarrow>
     (case call of
        Dir_loop nd indoff plane indices \<Rightarrow>
          nd \<noteq> 2 \<and> (nd \<noteq> 1 \<or> (\<exists>r. y = Inr r))
      | Dir_loop_for dindex dd endv indoff plane indices \<Rightarrow>
          (dindex \<noteq> 1 \<or> endv \<noteq> 18446744073709551615) \<and> (dindex \<noteq> 0 \<or> (\<exists>r. y = Inr r)))"
proof (induction rule: dir_loop_run.raw_induct [rotated 1, consumes 1])
  case (1 run self N NP inextent call y)
  note ih = "1.IH" [OF _ "1.prems"]
  have le: "dd \<le> 18446744073709551615" for dd :: T
    by (metis max_word_64 word_order.extremum)
  show ?case
  proof (cases call)
    case (Dir_loop nd indoff plane indices)
    show ?thesis
      using "1.hyps" "1.prems"
      by (auto simp: Dir_loop Let_def at_int_def at_def split: if_splits dest!: ih)
  next
    case (Dir_loop_for dindex dd endv indoff plane indices)
    consider "dindex = 0" | "dindex = 1" "endv = 18446744073709551615"
      | "dindex \<noteq> 0" "dindex \<noteq> 1 \<or> endv \<noteq> 18446744073709551615"
      by blast
    then show ?thesis
    proof cases
      case 1
      then show ?thesis
        using "1.hyps" "1.prems"
        by (auto simp: Dir_loop_for at_int_def at_def split: if_splits dest!: ih)
    next
      case 2
      with "1.hyps" "1.prems" le [of dd]
      obtain r where r: "run self N NP inextent
                           (Dir_loop 1 (indoff + (dd - 0) * NP ! 1) plane indices) = Some r"
        and c: "(case r of
                   Inl f \<Rightarrow> Some (Inl f)
                 | Inr indices' \<Rightarrow>
                    run self N NP inextent
                      (Dir_loop_for 1 (dd + 1) 18446744073709551615 indoff plane indices'))
                = Some y"
        by (auto simp: Dir_loop_for at_int_def at_def bind_eq_Some_conv)
      from ih [OF r] obtain ix where "r = Inr ix" by auto
      with c have "run self N NP inextent
                     (Dir_loop_for 1 (dd + 1) 18446744073709551615 indoff plane ix) = Some y"
        by simp
      from ih [OF this] show ?thesis by simp
    next
      case 3
      then show ?thesis by (simp add: Dir_loop_for)
    qed
  qed
qed

lemma GetFlatIndices_may_not_return:
  "GetFlatIndices \<lparr>bounds = [[0, 1], [0, 1]], m_nd = 2, m_Np = [1, 2], m_N = [2, 2]\<rparr>
     \<lparr>bounds = [[1, 0], [0, 18446744073709551615]], m_nd = 2, m_Np = [1, 0], m_N = [0, 0]\<rparr>
   = None"
proof -
  let ?S = "\<lparr>bounds = [[0, 1], [0, 1]], m_nd = 2, m_Np = [1, 2], m_N = [2, 2]\<rparr>"
  let ?Q = "\<lparr>bounds = [[1, 0], [0, 18446744073709551615]], m_nd = 2, m_Np = [1, 0],
             m_N = [0, 0]\<rparr>"
  have g: "GetFlatIndices ?S ?Q = dir_loop_run ?S [2, 2] [0, 2] ?Q (Dir_loop 2 0 0 [])"
    by (simp add: GetFlatIndices_def ND_def bindF_def at_def put_def dir_loop_def)
  show ?thesis
  proof (cases "GetFlatIndices ?S ?Q")
    case None
    then show ?thesis .
  next
    case (Some y)
    with g have "dir_loop_run ?S [2, 2] [0, 2] ?Q (Dir_loop 2 0 0 []) = Some y" by simp
    from no_return_example [OF this] show ?thesis by simp
  qed
qed

subsection \<open>The loop of FindSharedNodes\<close>

lemma FindSharedNodes_loop_eq:
  "FindSharedNodes_loop self pool (of_nat k) sh nb = Inr (sh', nb') \<Longrightarrow>
     sh' = sh @ List.map_filter (reported self) pool \<and>
     nb' = nb @ map (of_nat \<circ> fst) (filter (\<lambda>(i, e). reported self e \<noteq> None) (enumerate k pool))"
proof (induction pool arbitrary: k sh nb)
  case Nil
  then show ?case by (simp add: List.map_filter_simps)
next
  case (Cons epi pool)
  have k1: "(of_nat k :: T) + 1 = of_nat (Suc k)" by simp
  show ?case
  proof (cases "bounds epi \<noteq> bounds self")
    case False
    then have r: "reported self epi = None" by (simp add: reported_def)
    from False Cons.prems
    have "FindSharedNodes_loop self pool (of_nat (Suc k)) sh nb = Inr (sh', nb')"
      by (simp add: k1 del: of_nat_Suc)
    from Cons.IH [OF this] r show ?thesis
      by (simp add: List.map_filter_simps)
  next
    case True
    show ?thesis
    proof (cases "Overlap self epi BSExtent_default")
      case (Inl f)
      with True Cons.prems show ?thesis by (simp add: bindF_def)
    next
      case (Inr overlap)
      show ?thesis
      proof (cases "bounds overlap \<noteq> []")
        case False
        with True Inr have r: "reported self epi = None" by (simp add: reported_def)
        from False True Inr Cons.prems
        have "FindSharedNodes_loop self pool (of_nat (Suc k)) sh nb = Inr (sh', nb')"
          by (simp add: k1 bindF_def del: of_nat_Suc)
        from Cons.IH [OF this] r show ?thesis
          by (simp add: List.map_filter_simps)
      next
        case ne: True
        with True Inr have r: "reported self epi = Some overlap" by (simp add: reported_def)
        from ne True Inr Cons.prems
        have "FindSharedNodes_loop self pool (of_nat (Suc k)) (sh @ [overlap]) (nb @ [of_nat k])
                = Inr (sh', nb')"
          by (simp add: k1 bindF_def del: of_nat_Suc)
        from Cons.IH [OF this] r show ?thesis
          by (simp add: List.map_filter_simps)
      qed
    qed
  qed
qed

lemma length_map_filter_reported:
  "length (List.map_filter f xs) = length (filter (\<lambda>(i, e). f e \<noteq> None) (enumerate k xs))"
  by (induction xs arbitrary: k) (auto simp: List.map_filter_simps split: option.splits)


subsection \<open>Overlap on a range that encloses the other\<close>

text \<open>What the test of \<^verbatim>\<open>Overlap\<close> decides in one dimension, for rows with \<open>lo \<le> hi\<close>: the
  closed ranges meet, and this extent does not strictly enclose the other.\<close>

lemma dim_match_misses_enclosing:
  "2 \<le> length a \<Longrightarrow> 2 \<le> length b \<Longrightarrow> a ! 0 \<le> a ! 1 \<Longrightarrow> b ! 0 \<le> b ! 1 \<Longrightarrow>
     dim_match a b
       = Inr (a ! 0 \<le> b ! 1 \<and> b ! 0 \<le> a ! 1 \<and> \<not> (a ! 0 < b ! 0 \<and> b ! 1 < a ! 1))"
  by (auto simp: dim_match_paired)

text \<open>
  C1. The specification: \<^verbatim>\<open>Overlap(A,B)\<close> yields no region iff some dimension has
  \<open>A.hi < B.lo\<close> or \<open>B.hi < A.lo\<close>; a region exists iff \<open>A.lo \<le> B.hi\<close> and \<open>B.lo \<le> A.hi\<close>
  in every dimension. The source tests whether a bound of this extent lies in the range of
  the other, and so misses the dimension in which this extent strictly encloses the other:
  for \<open>A = [[0,10]]\<close> and \<open>B = [[3,5]]\<close>, both built by the nested constructor, the closed
  ranges meet, and \<^verbatim>\<open>A.Overlap(B, out)\<close> leaves \<open>out\<close> with no rows.
\<close>

theorem Overlap_misses_enclosed_range:
  "Overlap \<lparr>bounds = [[0, 10]], m_nd = 1, m_Np = [1], m_N = [11]\<rparr>
           \<lparr>bounds = [[3, 5]], m_nd = 1, m_Np = [1], m_N = [3]\<rparr> BSExtent_default
     = Inr \<lparr>bounds = [], m_nd = 0, m_Np = [], m_N = []\<rparr>
   \<and> closed_ranges_meet [[0, 10]] [[3, 5]]
   \<and> BSExtent_nested [[0, 10]] = Inr \<lparr>bounds = [[0, 10]], m_nd = 1, m_Np = [1], m_N = [11]\<rparr>
   \<and> BSExtent_nested [[3, 5]] = Inr \<lparr>bounds = [[3, 5]], m_nd = 1, m_Np = [1], m_N = [3]\<rparr>"
  by code_simp

text \<open>
  C4. The specification: \<^verbatim>\<open>Overlap(A,B) == Overlap(B,A)\<close> for extents of equal dimension.
  On the same two extents the source gives no region one way round and the region
  \<open>[[3,5]]\<close> the other way round.
\<close>

theorem Overlap_not_symmetric:
  "Overlap \<lparr>bounds = [[0, 10]], m_nd = 1, m_Np = [1], m_N = [11]\<rparr>
           \<lparr>bounds = [[3, 5]], m_nd = 1, m_Np = [1], m_N = [3]\<rparr> BSExtent_default
     = Inr \<lparr>bounds = [], m_nd = 0, m_Np = [], m_N = []\<rparr>
   \<and> Overlap \<lparr>bounds = [[3, 5]], m_nd = 1, m_Np = [1], m_N = [3]\<rparr>
             \<lparr>bounds = [[0, 10]], m_nd = 1, m_Np = [1], m_N = [11]\<rparr> BSExtent_default
     = Inr \<lparr>bounds = [[3, 5]], m_nd = 0, m_Np = [], m_N = []\<rparr>"
  by code_simp

subsection \<open>The derived members of the output of Overlap\<close>

text \<open>
  C3. The specification: every operation that creates or mutates an extent leaves its
  derived sizes and strides consistent with its bounds. \<^verbatim>\<open>Overlap\<close> writes the rows of its
  output and never calls \<^verbatim>\<open>Sync\<close> on it: for the specification's own example
  \<open>A = [[0,5],[0,5]]\<close>, \<open>B = [[5,10],[0,5]]\<close> and a default-constructed output (as
  \<^verbatim>\<open>FindSharedNodes\<close> passes it), the output has the rows \<open>[[5,5],[0,5]]\<close> with
  \<^verbatim>\<open>_nd = 0\<close> and empty \<^verbatim>\<open>_N\<close> and \<^verbatim>\<open>_Np\<close>; \<^verbatim>\<open>Sync\<close> would set them to 2, \<open>[1,6]\<close> and
  \<open>[1,1]\<close>, and \<^verbatim>\<open>CreateUnstructuredMesh\<close> on that output fails its first \<^verbatim>\<open>assert\<close>.
\<close>

theorem Overlap_output_not_in_sync:
  "Overlap \<lparr>bounds = [[0, 5], [0, 5]], m_nd = 2, m_Np = [1, 6], m_N = [6, 6]\<rparr>
           \<lparr>bounds = [[5, 10], [0, 5]], m_nd = 2, m_Np = [1, 6], m_N = [6, 6]\<rparr> BSExtent_default
     = Inr \<lparr>bounds = [[5, 5], [0, 5]], m_nd = 0, m_Np = [], m_N = []\<rparr>
   \<and> \<not> derived_in_sync \<lparr>bounds = [[5, 5], [0, 5]], m_nd = 0, m_Np = [], m_N = []\<rparr>
   \<and> Sync \<lparr>bounds = [[5, 5], [0, 5]], m_nd = 0, m_Np = [], m_N = []\<rparr>
     = Inr \<lparr>bounds = [[5, 5], [0, 5]], m_nd = 2, m_Np = [1, 1], m_N = [1, 6]\<rparr>
   \<and> CreateUnstructuredMesh \<lparr>bounds = [[5, 5], [0, 5]], m_nd = 0, m_Np = [], m_N = []\<rparr> conn
     = Some (Inl AssertFailed)"
  by (simp add: CreateUnstructuredMesh_def) code_simp

subsection \<open>GetFlatIndices without dimensions\<close>

text \<open>
  C8. The specification: with \<open>D = 0\<close> for both extents, \<^verbatim>\<open>GetFlatIndices\<close> returns an empty
  sequence and reads nothing out of range. In the source \<^verbatim>\<open>NP\<close> has size 0 and
  \<^verbatim>\<open>NP[0] = 0\<close> is written all the same (then \<^verbatim>\<open>dir_loop\<close> would read \<^verbatim>\<open>NP[-1]\<close>): the
  call on two default-constructed extents, and on any two extents without rows, is an
  access out of range.
\<close>

theorem GetFlatIndices_no_dimension:
  "GetFlatIndices BSExtent_default BSExtent_default = Some (Inl OutOfRange)
   \<and> GetFlatIndices (self\<lparr>bounds := []\<rparr>) (extent\<lparr>bounds := []\<rparr>) = Some (Inl OutOfRange)"
  by (simp add: GetFlatIndices_def bindF_def put_def BSExtent_default_def)

subsection \<open>The unit cell\<close>

lemma unit_cell_indices:
  "GetFlatIndices
     \<lparr>bounds = [[0, 1], [0, 1], [0, 1]], m_nd = 3, m_Np = [1, 2, 4], m_N = [2, 2, 2]\<rparr>
     \<lparr>bounds = [[0, 0], [0, 0], [0, 0]], m_nd = 3, m_Np = [1, 2, 4], m_N = [2, 2, 2]\<rparr>
   = Some (Inr [1])"
  by code_simp

text \<open>
  C9. The extent \<open>[[0,1],[0,1],[0,1]]\<close>, as the nested constructor builds it, converts to
  exactly one element, whatever the connectivity held before: \<^verbatim>\<open>AddElement\<close> is called
  once, with \<open>[1,2,4,3,5,6,8,7]\<close>, and \<^verbatim>\<open>Sync\<close> once. The tuple is the quadrilateral
  \<open>[i, i+1, i+1+rowStride, i+rowStride]\<close> for \<open>i = 1\<close> and \<open>rowStride = 2\<close>, followed by the
  same four nodes moved by \<open>planeStride = 4\<close>.
\<close>

theorem unit_cell_one_hexahedron:
  "BSExtent_nested [[0, 1], [0, 1], [0, 1]]
     = Inr \<lparr>bounds = [[0, 1], [0, 1], [0, 1]], m_nd = 3, m_Np = [1, 2, 4], m_N = [2, 2, 2]\<rparr>
   \<and> CreateUnstructuredMesh
       \<lparr>bounds = [[0, 1], [0, 1], [0, 1]], m_nd = 3, m_Np = [1, 2, 4], m_N = [2, 2, 2]\<rparr> conn
     = Some (Inr (conn\<lparr>elements := elements conn @ [[1, 2, 4, 3, 5, 6, 8, 7]],
                       syncs := Suc (syncs conn)\<rparr>))
   \<and> [1, 2, 4, 3, 5, 6, 8, 7]
     = [1, 1 + 1, 1 + 1 + 2, 1 + 2] @ map (\<lambda>n. n + 4) [1, 1 + 1, 1 + 1 + 2, 1 + (2::T)]"
proof (intro conjI)
  show "BSExtent_nested [[0, 1], [0, 1], [0, 1]]
     = Inr \<lparr>bounds = [[0, 1], [0, 1], [0, 1]], m_nd = 3, m_Np = [1, 2, 4], m_N = [2, 2, 2]\<rparr>"
    by code_simp
  show "CreateUnstructuredMesh
       \<lparr>bounds = [[0, 1], [0, 1], [0, 1]], m_nd = 3, m_Np = [1, 2, 4], m_N = [2, 2, 2]\<rparr> conn
     = Some (Inr (conn\<lparr>elements := elements conn @ [[1, 2, 4, 3, 5, 6, 8, 7]],
                       syncs := Suc (syncs conn)\<rparr>))"
    by (simp add: CreateUnstructuredMesh_def lowerleft_loop_def lowerleft_step_def
          emit_elements_def bindF_def at_def unit_cell_indices make_element_def
          AddElement_def Connectivity_Sync_def)
  show "[1, 2, 4, 3, 5, 6, 8, 7]
     = [1, 1 + 1, 1 + 1 + 2, 1 + 2] @ map (\<lambda>n. n + 4) [1, 1 + 1, 1 + 1 + 2, 1 + (2::T)]"
    by simp
qed

subsection \<open>The descending loop of NodeNum\<close>









subsection \<open>Construction\<close>

text \<open>
  C5, as the specification states it: every construction path validates its input and
  fails with \<^verbatim>\<open>InvalidDimension\<close> on an odd number of bounds or on \<open>lo > hi\<close>. The source
  has no such check and no such error. The flat constructor takes \<open>[1,2,3]\<close> and drops the
  3; the flat, the nested and the raw constructor take a row with \<open>lo = 3 > hi = 1\<close>,
  whose size \<open>hi - lo + 1\<close> wraps around to \<open>2\<^sup>6\<^sup>4 - 1\<close> in \<^verbatim>\<open>_N\<close>.
\<close>

theorem constructors_do_not_validate:
  "BSExtent_flat [1, 2, 3] = Inr \<lparr>bounds = [[1, 2]], m_nd = 1, m_Np = [1], m_N = [2]\<rparr>
   \<and> BSExtent_flat [3, 1]
     = Inr \<lparr>bounds = [[3, 1]], m_nd = 1, m_Np = [1], m_N = [18446744073709551615]\<rparr>
   \<and> BSExtent_nested [[3, 1]]
     = Inr \<lparr>bounds = [[3, 1]], m_nd = 1, m_Np = [1], m_N = [18446744073709551615]\<rparr>
   \<and> BSExtent_raw [3, 1] 1
     = Inr \<lparr>bounds = [[3, 1]], m_nd = 1, m_Np = [1], m_N = [18446744073709551615]\<rparr>"
  by code_simp

text \<open>
  C5, amended. No construction path validates its input, and none can fail with
  \<^verbatim>\<open>InvalidDimension\<close>. The flat constructor, given at least two entries, returns the
  extent of \<open>D = length div 2\<close> dimensions whose row \<open>d\<close> is the entries \<open>2d\<close> and \<open>2d + 1\<close>,
  in whatever order they are (an odd last entry is dropped). The nested constructor,
  given at least one row and two entries or more in every row, returns the extent with
  exactly these rows. The raw constructor, given \<open>nd \<ge> 1\<close> and a buffer of at least
  \<open>2 nd\<close> entries, returns the extent whose row \<open>d\<close> is the entries \<open>2d\<close> and \<open>2d + 1\<close>
  of the buffer. In each case the derived members are those \<^verbatim>\<open>Sync\<close> computes.
\<close>

theorem constructors_accept_any_bounds:
  "(2 \<le> length flat \<longrightarrow>
      (\<exists>e. BSExtent_flat flat = Inr e
          \<and> bounds e = map (\<lambda>d. [flat ! (2 * d), flat ! (2 * d + 1)]) [0..<length flat div 2]
          \<and> derived_in_sync e))
   \<and> (nested \<noteq> [] \<and> rows_paired nested \<longrightarrow>
      (\<exists>e. BSExtent_nested nested = Inr e \<and> bounds e = nested \<and> derived_in_sync e))
   \<and> (0 < nd \<and> 2 * nat nd \<le> length src \<longrightarrow>
      (\<exists>e. BSExtent_raw src nd = Inr e
          \<and> bounds e = map (\<lambda>d. [src ! (2 * d), src ! (2 * d + 1)]) [0..<nat nd]
          \<and> derived_in_sync e))"
proof (intro conjI impI)
  let ?rows = "map (\<lambda>d. [flat ! (2 * d), flat ! (2 * d + 1)]) [0..<length flat div 2]"
  let ?e = "\<lparr>bounds = ?rows, m_nd = length flat div 2, m_Np = [], m_N = []\<rparr>"
  assume "2 \<le> length flat"
  then have "bounds ?e \<noteq> []" by simp
  moreover have "rows_paired (bounds ?e)" by (simp add: rows_paired_pairs)
  ultimately obtain e' where "Sync ?e = Inr e'" "bounds e' = ?rows" "derived_in_sync e'"
    using Sync_succeeds [of ?e] by auto
  moreover have "fill_rows flat 0 (length flat div 2) = Inr ?rows"
    using fill_rows_in_range [of 0 "length flat div 2" flat] by simp
  ultimately show "\<exists>e. BSExtent_flat flat = Inr e \<and> bounds e = ?rows \<and> derived_in_sync e"
    by (simp add: BSExtent_flat_def bindF_def Let_def)
next
  let ?e = "\<lparr>bounds = nested, m_nd = length nested, m_Np = [], m_N = []\<rparr>"
  assume "nested \<noteq> [] \<and> rows_paired nested"
  then show "\<exists>e. BSExtent_nested nested = Inr e \<and> bounds e = nested \<and> derived_in_sync e"
    using Sync_succeeds [of ?e] by (simp add: BSExtent_nested_def)
next
  let ?rows = "map (\<lambda>d. [src ! (2 * d), src ! (2 * d + 1)]) [0..<nat nd]"
  let ?e = "\<lparr>bounds = ?rows, m_nd = nat nd, m_Np = [], m_N = []\<rparr>"
  assume a: "0 < nd \<and> 2 * nat nd \<le> length src"
  then have "bounds ?e \<noteq> []" by simp
  moreover have "rows_paired (bounds ?e)" by (simp add: rows_paired_pairs)
  ultimately obtain e' where "Sync ?e = Inr e'" "bounds e' = ?rows" "derived_in_sync e'"
    using Sync_succeeds [of ?e] by auto
  moreover have "fill_rows src 0 (nat nd) = Inr ?rows"
    using a fill_rows_in_range [of 0 "nat nd" src] by simp
  ultimately show "\<exists>e. BSExtent_raw src nd = Inr e \<and> bounds e = ?rows \<and> derived_in_sync e"
    using a by (simp add: BSExtent_raw_def bindF_def)
qed

theorem constructors_accept_any_bounds_witness:
  "2 \<le> length [3, 1, 7 :: T]
   \<and> (\<exists>e. BSExtent_flat [3, 1, 7] = Inr e \<and> bounds e = [[3, 1]] \<and> derived_in_sync e)
   \<and> [[3, 1 :: T]] \<noteq> [] \<and> rows_paired [[3, 1]]
   \<and> (\<exists>e. BSExtent_nested [[3, 1]] = Inr e \<and> bounds e = [[3, 1]] \<and> derived_in_sync e)
   \<and> 0 < (1 :: int) \<and> 2 * nat 1 \<le> length [3, 1, 7 :: T]
   \<and> (\<exists>e. BSExtent_raw [3, 1, 7] 1 = Inr e \<and> bounds e = [[3, 1]] \<and> derived_in_sync e)"
  using constructors_accept_any_bounds [of "[3, 1, 7]" "[[3, 1]]" 1 "[3, 1, 7]"]
  by (simp add: rows_paired_def)

subsection \<open>Operands of different dimension\<close>




subsection \<open>FindSharedNodes\<close>

text \<open>
  C2, as the specification states it: \<^verbatim>\<open>FindSharedNodes\<close> skips the pool slot that is this
  extent by position, and a pool entry at another position with the same bounds is
  still compared and reported. The source skips by \<^verbatim>\<open>*epi != *this\<close>, the comparison of
  the rows: with this extent \<open>[[0,1]]\<close> and a pool of two entries with these bounds,
  whichever slot this extent is, the other has a non-empty overlap \<open>[[0,1]]\<close> with it,
  and nothing is reported.
\<close>

theorem FindSharedNodes_skips_equal_rows:
  "FindSharedNodes \<lparr>bounds = [[0, 1]], m_nd = 1, m_Np = [1], m_N = [2]\<rparr> [\<lparr>bounds = [[0, 1]], m_nd = 1, m_Np = [1], m_N = [2]\<rparr>, \<lparr>bounds = [[0, 1]], m_nd = 1, m_Np = [1], m_N = [2]\<rparr>] [] [] = Inr ([], [])
   \<and> Overlap \<lparr>bounds = [[0, 1]], m_nd = 1, m_Np = [1], m_N = [2]\<rparr> \<lparr>bounds = [[0, 1]], m_nd = 1, m_Np = [1], m_N = [2]\<rparr> BSExtent_default
     = Inr \<lparr>bounds = [[0, 1]], m_nd = 0, m_Np = [], m_N = []\<rparr>"
  by code_simp

text \<open>
  C2, amended. \<^verbatim>\<open>FindSharedNodes\<close> skips every pool entry whose rows equal the rows of this
  extent (by value: an entry at another position with the same bounds is skipped too),
  computes \<^verbatim>\<open>Overlap\<close> of this extent with every other entry, and reports, in pool order,
  the entries for which \<^verbatim>\<open>Overlap\<close> leaves an output with rows: the overlaps are the
  reported overlaps of the pool in order, the indices appended to \<^verbatim>\<open>neighbors\<close> are the
  positions of these entries, and their number is the number of pool entries that are
  reported.
\<close>

theorem FindSharedNodes_skips_by_value:
  assumes "FindSharedNodes self pool sh0 nb0 = Inr (sh, nb)"
  shows "sh = List.map_filter (reported self) pool
       \<and> nb = nb0 @ map (of_nat \<circ> fst)
                     (filter (\<lambda>(i, e). reported self e \<noteq> None) (enumerate 0 pool))
       \<and> length sh = length (filter (\<lambda>e. reported self e \<noteq> None) pool)"
proof -
  from assms have "FindSharedNodes_loop self pool (of_nat 0) [] nb0 = Inr (sh, nb)"
    by (simp add: FindSharedNodes_def)
  from FindSharedNodes_loop_eq [OF this]
  have a: "sh = List.map_filter (reported self) pool"
    and b: "nb = nb0 @ map (of_nat \<circ> fst)
                     (filter (\<lambda>(i, e). reported self e \<noteq> None) (enumerate 0 pool))"
    by simp_all
  have "length (List.map_filter (reported self) pool)
          = length (filter (\<lambda>e. reported self e \<noteq> None) pool)"
    by (induction pool) (auto simp: List.map_filter_simps split: option.splits)
  with a b show ?thesis by simp
qed

theorem FindSharedNodes_skips_by_value_witness:
  "FindSharedNodes \<lparr>bounds = [[0, 1]], m_nd = 1, m_Np = [1], m_N = [2]\<rparr> [\<lparr>bounds = [[0, 1]], m_nd = 1, m_Np = [1], m_N = [2]\<rparr>, \<lparr>bounds = [[1, 2]], m_nd = 1, m_Np = [1], m_N = [2]\<rparr>, \<lparr>bounds = [[0, 1]], m_nd = 1, m_Np = [1], m_N = [2]\<rparr>, \<lparr>bounds = [[1, 2]], m_nd = 1, m_Np = [1], m_N = [2]\<rparr>] [\<lparr>bounds = [[0, 1]], m_nd = 1, m_Np = [1], m_N = [2]\<rparr>] [7] = Inr ([\<lparr>bounds = [[1, 1]], m_nd = 0, m_Np = [], m_N = []\<rparr>, \<lparr>bounds = [[1, 1]], m_nd = 0, m_Np = [], m_N = []\<rparr>], [7, 1, 3])
   \<and> [\<lparr>bounds = [[1, 1]], m_nd = 0, m_Np = [], m_N = []\<rparr>, \<lparr>bounds = [[1, 1]], m_nd = 0, m_Np = [], m_N = []\<rparr>] = List.map_filter (reported \<lparr>bounds = [[0, 1]], m_nd = 1, m_Np = [1], m_N = [2]\<rparr>) [\<lparr>bounds = [[0, 1]], m_nd = 1, m_Np = [1], m_N = [2]\<rparr>, \<lparr>bounds = [[1, 2]], m_nd = 1, m_Np = [1], m_N = [2]\<rparr>, \<lparr>bounds = [[0, 1]], m_nd = 1, m_Np = [1], m_N = [2]\<rparr>, \<lparr>bounds = [[1, 2]], m_nd = 1, m_Np = [1], m_N = [2]\<rparr>]
   \<and> [7 :: T, 1, 3] = [7] @ map (of_nat \<circ> fst)
                     (filter (\<lambda>(i, e). reported \<lparr>bounds = [[0, 1]], m_nd = 1, m_Np = [1], m_N = [2]\<rparr> e \<noteq> None)
                        (enumerate 0 [\<lparr>bounds = [[0, 1]], m_nd = 1, m_Np = [1], m_N = [2]\<rparr>, \<lparr>bounds = [[1, 2]], m_nd = 1, m_Np = [1], m_N = [2]\<rparr>, \<lparr>bounds = [[0, 1]], m_nd = 1, m_Np = [1], m_N = [2]\<rparr>, \<lparr>bounds = [[1, 2]], m_nd = 1, m_Np = [1], m_N = [2]\<rparr>]))
   \<and> length [\<lparr>bounds = [[1, 1]], m_nd = 0, m_Np = [], m_N = []\<rparr>, \<lparr>bounds = [[1, 1]], m_nd = 0, m_Np = [], m_N = []\<rparr>]
       = length (filter (\<lambda>e. reported \<lparr>bounds = [[0, 1]], m_nd = 1, m_Np = [1], m_N = [2]\<rparr> e \<noteq> None) [\<lparr>bounds = [[0, 1]], m_nd = 1, m_Np = [1], m_N = [2]\<rparr>, \<lparr>bounds = [[1, 2]], m_nd = 1, m_Np = [1], m_N = [2]\<rparr>, \<lparr>bounds = [[0, 1]], m_nd = 1, m_Np = [1], m_N = [2]\<rparr>, \<lparr>bounds = [[1, 2]], m_nd = 1, m_Np = [1], m_N = [2]\<rparr>])"
proof -
  have h: "FindSharedNodes \<lparr>bounds = [[0, 1]], m_nd = 1, m_Np = [1], m_N = [2]\<rparr> [\<lparr>bounds = [[0, 1]], m_nd = 1, m_Np = [1], m_N = [2]\<rparr>, \<lparr>bounds = [[1, 2]], m_nd = 1, m_Np = [1], m_N = [2]\<rparr>, \<lparr>bounds = [[0, 1]], m_nd = 1, m_Np = [1], m_N = [2]\<rparr>, \<lparr>bounds = [[1, 2]], m_nd = 1, m_Np = [1], m_N = [2]\<rparr>] [\<lparr>bounds = [[0, 1]], m_nd = 1, m_Np = [1], m_N = [2]\<rparr>] [7] = Inr ([\<lparr>bounds = [[1, 1]], m_nd = 0, m_Np = [], m_N = []\<rparr>, \<lparr>bounds = [[1, 1]], m_nd = 0, m_Np = [], m_N = []\<rparr>], [7, 1, 3])"
    by code_simp
  show ?thesis by (rule conjI [OF h FindSharedNodes_skips_by_value [OF h]])
qed

text \<open>
  C10. \<^verbatim>\<open>FindSharedNodes\<close> resizes \<^verbatim>\<open>shared_extents\<close> to 0 and never \<^verbatim>\<open>neighbors\<close>: the result
  is the same whatever \<^verbatim>\<open>shared_extents\<close> held; the \<^verbatim>\<open>neighbors\<close> returned start with what
  the vector held, followed by one new index for each overlap returned; so the two
  outputs differ in length whenever \<^verbatim>\<open>neighbors\<close> was not empty at the call.
\<close>

theorem FindSharedNodes_appends_neighbors:
  assumes "FindSharedNodes self pool sh0 nb0 = Inr (sh, nb)"
  shows "FindSharedNodes self pool [] nb0 = Inr (sh, nb)
       \<and> take (length nb0) nb = nb0
       \<and> length nb = length nb0 + length sh
       \<and> (nb0 = [] \<or> length nb \<noteq> length sh)"
proof -
  from assms have l: "FindSharedNodes_loop self pool (of_nat 0) [] nb0 = Inr (sh, nb)"
    by (simp add: FindSharedNodes_def)
  from FindSharedNodes_loop_eq [OF l]
  have a: "sh = List.map_filter (reported self) pool"
    and b: "nb = nb0 @ map (of_nat \<circ> fst)
                     (filter (\<lambda>(i, e). reported self e \<noteq> None) (enumerate 0 pool))"
    by simp_all
  have c: "length nb = length nb0 + length sh"
    by (subst b, subst a) (simp add: length_map_filter_reported [of _ _ 0])
  from assms have "FindSharedNodes self pool [] nb0 = Inr (sh, nb)"
    by (simp add: FindSharedNodes_def)
  moreover from b have "take (length nb0) nb = nb0" by simp
  moreover from c have "nb0 = [] \<or> length nb \<noteq> length sh" by auto
  ultimately show ?thesis using c by simp
qed

theorem FindSharedNodes_appends_neighbors_witness:
  "FindSharedNodes \<lparr>bounds = [[1, 2]], m_nd = 1, m_Np = [1], m_N = [2]\<rparr> [\<lparr>bounds = [[0, 1]], m_nd = 1, m_Np = [1], m_N = [2]\<rparr>, \<lparr>bounds = [[1, 2]], m_nd = 1, m_Np = [1], m_N = [2]\<rparr>, \<lparr>bounds = [[0, 1]], m_nd = 1, m_Np = [1], m_N = [2]\<rparr>] [\<lparr>bounds = [[1, 2]], m_nd = 1, m_Np = [1], m_N = [2]\<rparr>, \<lparr>bounds = [[1, 2]], m_nd = 1, m_Np = [1], m_N = [2]\<rparr>] [7, 8] = Inr ([\<lparr>bounds = [[1, 1]], m_nd = 0, m_Np = [], m_N = []\<rparr>, \<lparr>bounds = [[1, 1]], m_nd = 0, m_Np = [], m_N = []\<rparr>], [7, 8, 0, 2])
   \<and> FindSharedNodes \<lparr>bounds = [[1, 2]], m_nd = 1, m_Np = [1], m_N = [2]\<rparr> [\<lparr>bounds = [[0, 1]], m_nd = 1, m_Np = [1], m_N = [2]\<rparr>, \<lparr>bounds = [[1, 2]], m_nd = 1, m_Np = [1], m_N = [2]\<rparr>, \<lparr>bounds = [[0, 1]], m_nd = 1, m_Np = [1], m_N = [2]\<rparr>] [] [7, 8] = Inr ([\<lparr>bounds = [[1, 1]], m_nd = 0, m_Np = [], m_N = []\<rparr>, \<lparr>bounds = [[1, 1]], m_nd = 0, m_Np = [], m_N = []\<rparr>], [7, 8, 0, 2])
   \<and> take (length [7, 8 :: T]) [7, 8, 0, 2 :: T] = [7, 8]
   \<and> length [7, 8, 0, 2 :: T] = length [7, 8 :: T] + length [\<lparr>bounds = [[1, 1]], m_nd = 0, m_Np = [], m_N = []\<rparr>, \<lparr>bounds = [[1, 1]], m_nd = 0, m_Np = [], m_N = []\<rparr>]
   \<and> ([7, 8 :: T] = [] \<or> length [7, 8, 0, 2 :: T] \<noteq> length [\<lparr>bounds = [[1, 1]], m_nd = 0, m_Np = [], m_N = []\<rparr>, \<lparr>bounds = [[1, 1]], m_nd = 0, m_Np = [], m_N = []\<rparr>])"
proof -
  have h: "FindSharedNodes \<lparr>bounds = [[1, 2]], m_nd = 1, m_Np = [1], m_N = [2]\<rparr> [\<lparr>bounds = [[0, 1]], m_nd = 1, m_Np = [1], m_N = [2]\<rparr>, \<lparr>bounds = [[1, 2]], m_nd = 1, m_Np = [1], m_N = [2]\<rparr>, \<lparr>bounds = [[0, 1]], m_nd = 1, m_Np = [1], m_N = [2]\<rparr>] [\<lparr>bounds = [[1, 2]], m_nd = 1, m_Np = [1], m_N = [2]\<rparr>, \<lparr>bounds = [[1, 2]], m_nd = 1, m_Np = [1], m_N = [2]\<rparr>] [7, 8]
             = Inr ([\<lparr>bounds = [[1, 1]], m_nd = 0, m_Np = [], m_N = []\<rparr>, \<lparr>bounds = [[1, 1]], m_nd = 0, m_Np = [], m_N = []\<rparr>], [7, 8, 0, 2])"
    by code_simp
  show ?thesis by (rule conjI [OF h FindSharedNodes_appends_neighbors [OF h]])
qed

end
